theory Spec2Isabelle
  imports Main "HOL-Library.AList"
begin

section \<open>JavaScript values\<close>

text \<open>
  The values that flow through \<^verbatim>\<open>server.js\<close>: results of \<^verbatim>\<open>JSON.parse\<close>, object
  literals built by the handlers, and \<^verbatim>\<open>undefined\<close> for a property that is absent.
  Numbers are integers here: the handlers only test a number for truthiness and compare
  it with strings. An object is the list of its own properties in insertion order.
\<close>

datatype jsval =
    JUndefined
  | JNull
  | JBool bool
  | JNum int
  | JStr string
  | JArr "jsval list"
  | JObj "(string \<times> jsval) list"

text \<open>What a \<^verbatim>\<open>throw\<close> carries; only the kind of the exception matters.\<close>

datatype exn = SyntaxError | TypeError | ReferenceError | FetchError | SendError

text \<open>\<^verbatim>\<open>if (v)\<close>, \<^verbatim>\<open>!v\<close>, \<^verbatim>\<open>v && ...\<close>, \<^verbatim>\<open>v || ...\<close>: the truthiness of a value.\<close>

fun truthy :: "jsval \<Rightarrow> bool" where
  "truthy JUndefined = False"
| "truthy JNull = False"
| "truthy (JBool b) = b"
| "truthy (JNum n) = (n \<noteq> 0)"
| "truthy (JStr s) = (s \<noteq> [])"
| "truthy (JArr xs) = True"
| "truthy (JObj kvs) = True"

text \<open>
  \<^verbatim>\<open>v.k\<close> for a value that is neither \<^verbatim>\<open>null\<close> nor \<^verbatim>\<open>undefined\<close>: an own property
  of an object, \<^verbatim>\<open>undefined\<close> otherwise (none of the names the handlers read is
  defined on a prototype). \<open>get_prop\<close> is the unguarded read, which throws a
  TypeError on \<^verbatim>\<open>null\<close> and \<^verbatim>\<open>undefined\<close>.
\<close>

fun prop_of :: "jsval \<Rightarrow> string \<Rightarrow> jsval" where
  "prop_of (JObj kvs) k = (case map_of kvs k of None \<Rightarrow> JUndefined | Some v \<Rightarrow> v)"
| "prop_of v k = JUndefined"

definition get_prop :: "jsval \<Rightarrow> string \<Rightarrow> exn + jsval" where
  "get_prop v k = (if v = JNull \<or> v = JUndefined then Inl TypeError else Inr (prop_of v k))"

section \<open>Map and Set\<close>

text \<open>
  A JavaScript \<^verbatim>\<open>Map\<close> keeps its keys in insertion order: \<^verbatim>\<open>set\<close> overwrites the
  value of a key in place or appends a new entry, \<^verbatim>\<open>delete\<close> removes the entry. A
  \<^verbatim>\<open>Set\<close> is a list without repetition, in insertion order.
\<close>

type_synonym ('k, 'v) jsmap = "('k \<times> 'v) list"

definition map_get :: "('k, 'v) jsmap \<Rightarrow> 'k \<Rightarrow> 'v option" where
  "map_get m k = map_of m k"

definition map_has :: "('k, 'v) jsmap \<Rightarrow> 'k \<Rightarrow> bool" where
  "map_has m k = (map_of m k \<noteq> None)"

definition map_set :: "('k, 'v) jsmap \<Rightarrow> 'k \<Rightarrow> 'v \<Rightarrow> ('k, 'v) jsmap" where
  "map_set m k v = AList.update k v m"

definition map_delete :: "('k, 'v) jsmap \<Rightarrow> 'k \<Rightarrow> ('k, 'v) jsmap" where
  "map_delete m k = AList.delete k m"

definition map_values :: "('k, 'v) jsmap \<Rightarrow> 'v list" where
  "map_values m = map snd m"

definition set_add :: "'a list \<Rightarrow> 'a \<Rightarrow> 'a list" where
  "set_add xs x = (if x \<in> set xs then xs else xs @ [x])"

definition set_delete :: "'a list \<Rightarrow> 'a \<Rightarrow> 'a list" where
  "set_delete xs x = removeAll x xs"

section \<open>Sockets and what the server does to them\<close>

text \<open>
  A socket is named by a number. Its \<^verbatim>\<open>readyState\<close> (1 is OPEN) and whether
  \<^verbatim>\<open>ws.send\<close> throws belong to the network, so every handler receives them as an
  input. What a handler does to sockets is returned as a list of actions, in order:
  a message handed to \<^verbatim>\<open>ws.send\<close> that did not throw, and \<^verbatim>\<open>ws.close()\<close>.
\<close>

type_synonym ws = nat

record sockets =
  readyState :: "ws \<Rightarrow> nat"
  sendThrows :: "ws \<Rightarrow> bool"

datatype action = WsSent ws jsval | WsClose ws

definition ws_send :: "sockets \<Rightarrow> ws \<Rightarrow> jsval \<Rightarrow> exn + action list" where
  "ws_send socks w obj = (if sendThrows socks w then Inl SendError else Inr [WsSent w obj])"

text \<open>\<^verbatim>\<open>wsSendSafe\<close> (server.js 166-172): send only on an open socket, swallow a throw.\<close>

definition wsSendSafe :: "sockets \<Rightarrow> ws \<Rightarrow> jsval \<Rightarrow> action list" where
  "wsSendSafe socks w obj =
     (if readyState socks w = 1
      then (case ws_send socks w obj of Inl err \<Rightarrow> [] | Inr acts \<Rightarrow> acts)
      else [])"

text \<open>A socket on which a send goes through.\<close>

definition live :: "sockets \<Rightarrow> ws \<Rightarrow> bool" where
  "live socks w = (readyState socks w = 1 \<and> \<not> sendThrows socks w)"

section \<open>The session registry and the pending-alert store\<close>

text \<open>
  \<^verbatim>\<open>wsClients\<close> maps a caregiver id to the Set of its sockets, \<^verbatim>\<open>pendingAlerts\<close>
  maps a caregiver id to a Map from alert id to payload (server.js 159-160). A
  caregiver id is whatever value the caller passes as a Map key: the string of the
  URL at a handshake, the \<^verbatim>\<open>fk_aide_soignant\<close> of the directory or the
  \<^verbatim>\<open>aideId\<close> of a request body at a dispatch. Keys are compared by value, as a
  Map compares strings and numbers. Alert ids are the strings
  \<^verbatim>\<open>crypto.randomUUID()\<close> returns.
\<close>

type_synonym aideId = jsval

record state =
  wsClients :: "(aideId, ws list) jsmap"
  pendingAlerts :: "(aideId, (string, jsval) jsmap) jsmap"

definition init :: state where
  "init = \<lparr>wsClients = [], pendingAlerts = []\<rparr>"

record config =
  API_KEY :: string
  API_BASE :: string

text \<open>\<^verbatim>\<open>{ ...data, alertId, timestamp }\<close>: the fields of \<open>data\<close>, then the two stamps.\<close>

definition stamp :: "(string \<times> jsval) list \<Rightarrow> string \<Rightarrow> string \<Rightarrow> jsval" where
  "stamp data alertId timestamp =
     JObj (AList.update ''timestamp'' (JStr timestamp)
            (AList.update ''alertId'' (JStr alertId) data))"

text \<open>
  \<^verbatim>\<open>sendToAide\<close> (server.js 289-305). The fresh UUID and the clock reading are
  inputs. The result is the returned boolean, the new state and the sends.
\<close>

definition sendToAide ::
  "sockets \<Rightarrow> state \<Rightarrow> aideId \<Rightarrow> (string \<times> jsval) list \<Rightarrow> string \<Rightarrow> string
     \<Rightarrow> bool \<times> state \<times> action list" where
  "sendToAide socks s aideId data alertId timestamp =
     (let pending1 = (if \<not> map_has (pendingAlerts s) aideId
                      then map_set (pendingAlerts s) aideId []
                      else pendingAlerts s);
          clients = map_get (wsClients s) aideId;
          payload = stamp data alertId timestamp;
          pending2 = (case map_get pending1 aideId of
                        None \<Rightarrow> pending1
                      | Some q \<Rightarrow> map_set pending1 aideId (map_set q alertId payload));
          s' = s\<lparr>pendingAlerts := pending2\<rparr>
      in case clients of
           None \<Rightarrow> (False, s', [])
         | Some cs \<Rightarrow>
             if length cs = 0 then (False, s', [])
             else (True, s', concat (map (\<lambda>w. wsSendSafe socks w payload) cs)))"

text \<open>
  The body of the retry timer (server.js 307-321), for one caregiver and for all of
  them. Nothing in the body can throw: every send goes through \<open>wsSendSafe\<close>.
\<close>

definition retry_one :: "sockets \<Rightarrow> state \<Rightarrow> aideId \<times> ws list \<Rightarrow> action list" where
  "retry_one socks s entry =
     (case entry of (aideId, clientSet) \<Rightarrow>
        (case map_get (pendingAlerts s) aideId of
           None \<Rightarrow> []
         | Some queue \<Rightarrow>
             if length queue = 0 then []
             else concat (map (\<lambda>payload. concat (map (\<lambda>w. wsSendSafe socks w payload) clientSet))
                              (map_values queue))))"

definition retryTick :: "sockets \<Rightarrow> state \<Rightarrow> action list" where
  "retryTick socks s = concat (map (retry_one socks s) (wsClients s))"

section \<open>The connection handler\<close>

text \<open>
  The connecting URL once it is parsed: its \<^verbatim>\<open>href\<close> and its query parameters
  (\<^verbatim>\<open>searchParams.get\<close> gives a string or \<^verbatim>\<open>null\<close>). And what the credential lookup \<^verbatim>\<open>fetch\<close> did: it threw, or it gave a
  response with its \<^verbatim>\<open>ok\<close> flag and the outcome of \<^verbatim>\<open>response.json()\<close>.
\<close>

record query =
  q_url :: string
  q_token :: "string option"
  q_id :: "string option"
  q_pwd :: "string option"

datatype json_result = JsonThrows | JsonOk jsval

datatype fetch_result = FetchThrows | Response bool json_result

definition error_obj :: "string \<Rightarrow> jsval" where
  "error_obj m = JObj [(''error'', JStr m)]"

definition invalid_token_obj :: "config \<Rightarrow> query \<Rightarrow> jsval" where
  "invalid_token_obj cfg q =
     JObj [(''error'', JStr ''Invalid token''),
           (''debug'', JObj [(''token_recu'', (case q_token q of None \<Rightarrow> JNull | Some t \<Rightarrow> JStr t)),
                             (''api_key_attendue'', JStr (API_KEY cfg)),
                             (''url'', JStr (q_url q))])]"

text \<open>Every rejection: one error object through \<open>wsSendSafe\<close>, then \<^verbatim>\<open>ws.close()\<close>.\<close>

definition reject :: "sockets \<Rightarrow> ws \<Rightarrow> jsval \<Rightarrow> action list" where
  "reject socks w obj = wsSendSafe socks w obj @ [WsClose w]"

text \<open>server.js 235-245: register the socket, create the queue, flush it.\<close>

definition register_session :: "state \<Rightarrow> aideId \<Rightarrow> ws \<Rightarrow> state" where
  "register_session s aideId w =
     (let clients1 = (if \<not> map_has (wsClients s) aideId
                      then map_set (wsClients s) aideId []
                      else wsClients s);
          clients2 = (case map_get clients1 aideId of
                        None \<Rightarrow> clients1
                      | Some cs \<Rightarrow> map_set clients1 aideId (set_add cs w));
          pending1 = (if \<not> map_has (pendingAlerts s) aideId
                      then map_set (pendingAlerts s) aideId []
                      else pendingAlerts s)
      in \<lparr>wsClients = clients2, pendingAlerts = pending1\<rparr>)"

definition flush :: "sockets \<Rightarrow> state \<Rightarrow> aideId \<Rightarrow> ws \<Rightarrow> action list" where
  "flush socks s aideId w =
     (case map_get (pendingAlerts s) aideId of
        None \<Rightarrow> []
      | Some queue \<Rightarrow> concat (map (wsSendSafe socks w) (map_values queue)))"

text \<open>
  The \<^verbatim>\<open>try\<close> block (server.js 205-279): \<open>Inl\<close> is an exception on its way to the
  \<^verbatim>\<open>catch\<close>. All of them are thrown before the state is touched.
\<close>

definition authenticate ::
  "sockets \<Rightarrow> state \<Rightarrow> ws \<Rightarrow> string \<Rightarrow> string \<Rightarrow> fetch_result
     \<Rightarrow> exn + (state \<times> action list)" where
  "authenticate socks s w aideId password auth =
     (case auth of
        FetchThrows \<Rightarrow> Inl FetchError
      | Response ok body \<Rightarrow>
          if \<not> ok
          then Inr (s, reject socks w (error_obj ''Authentication failed due to API error''))
          else (case body of
                  JsonThrows \<Rightarrow> Inl SyntaxError
                | JsonOk aideData \<Rightarrow>
                    (case get_prop aideData ''mot_de_passe'' of
                       Inl err \<Rightarrow> Inl err
                     | Inr stored \<Rightarrow>
                         if stored \<noteq> JStr password
                         then Inr (s, reject socks w (error_obj ''Invalid password''))
                         else (let s' = register_session s (JStr aideId) w
                               in Inr (s', flush socks s' (JStr aideId) w)))))"

text \<open>
  The handler of \<^verbatim>\<open>wss.on("connection")\<close> from the parsed URL on (server.js
  176-287). The checks before the lookup do not read the state, so the state is the
  one the handler finds when the lookup has answered.
\<close>

definition handshake ::
  "config \<Rightarrow> sockets \<Rightarrow> state \<Rightarrow> ws \<Rightarrow> query \<Rightarrow> fetch_result \<Rightarrow> state \<times> action list" where
  "handshake cfg socks s w q auth =
     (case q_id q of
        None \<Rightarrow> (s, reject socks w (error_obj ''Missing 'id' query param''))
      | Some aideId \<Rightarrow>
          if aideId = [] then (s, reject socks w (error_obj ''Missing 'id' query param''))
          else (case q_pwd q of
             None \<Rightarrow> (s, reject socks w (error_obj ''Missing 'pwd' query param''))
           | Some password \<Rightarrow>
               if password = [] then (s, reject socks w (error_obj ''Missing 'pwd' query param''))
               else if API_KEY cfg \<noteq> [] \<and> q_token q \<noteq> Some (API_KEY cfg)
               then (s, reject socks w (invalid_token_obj cfg q))
               else (case authenticate socks s w aideId password auth of
                       Inl err \<Rightarrow> (s, reject socks w (error_obj ''Internal server error.''))
                     | Inr r \<Rightarrow> r)))"

text \<open>
  The whole handler (server.js 174-287). Its first statement,
  \<^verbatim>\<open>new URL(req.url, `http://${req.headers.host || "localhost"}`)\<close>, stands
  outside the \<^verbatim>\<open>try\<close>, which opens at line 205: when the request target or the
  Host header does not make a URL it throws a TypeError, and the \<^verbatim>\<open>async\<close> handler
  ends there, an unhandled rejection, having sent nothing and closed nothing. \<open>url\<close>
  is what that statement and the three \<^verbatim>\<open>searchParams.get\<close> give: the exception, or
  the URL with its parameters.
\<close>

definition on_connection ::
  "config \<Rightarrow> sockets \<Rightarrow> state \<Rightarrow> ws \<Rightarrow> exn + query \<Rightarrow> fetch_result
     \<Rightarrow> exn + (state \<times> action list)" where
  "on_connection cfg socks s w url auth =
     (case url of
        Inl err \<Rightarrow> Inl err
      | Inr q \<Rightarrow> Inr (handshake cfg socks s w q auth))"

section \<open>Messages from an authenticated socket, and its close\<close>

text \<open>
  The \<^verbatim>\<open>message\<close> handler (server.js 247-270) of the socket \<open>w\<close> that authenticated as
  \<open>aideId\<close>; \<open>parsed\<close> is what \<^verbatim>\<open>JSON.parse\<close> made of the message. \<^verbatim>\<open>q.has\<close> and
  \<^verbatim>\<open>q.delete\<close> compare the alert id with the keys of the queue, which are strings.
\<close>

definition on_message ::
  "sockets \<Rightarrow> state \<Rightarrow> ws \<Rightarrow> aideId \<Rightarrow> exn + jsval \<Rightarrow> state \<times> action list" where
  "on_message socks s w aideId parsed =
     (case parsed of
        Inl err \<Rightarrow> (s, [])
      | Inr data \<Rightarrow>
          if truthy data \<and> prop_of data ''type'' = JStr ''ack'' \<and> truthy (prop_of data ''alertId'')
          then (case map_get (pendingAlerts s) aideId of
                  None \<Rightarrow> (s, [])
                | Some q \<Rightarrow>
                    (case prop_of data ''alertId'' of
                       JStr alertId \<Rightarrow>
                         if map_has q alertId
                         then (s\<lparr>pendingAlerts :=
                                   map_set (pendingAlerts s) aideId (map_delete q alertId)\<rparr>, [])
                         else (s, [])
                     | _ \<Rightarrow> (s, [])))
          else if truthy data \<and> prop_of data ''type'' = JStr ''resend_pending''
          then (case map_get (pendingAlerts s) aideId of
                  None \<Rightarrow> (s, [])
                | Some q \<Rightarrow> (s, concat (map (wsSendSafe socks w) (map_values q))))
          else (s, []))"

text \<open>The \<^verbatim>\<open>close\<close> handler (server.js 272-279).\<close>

definition on_close :: "state \<Rightarrow> ws \<Rightarrow> aideId \<Rightarrow> state" where
  "on_close s w aideId =
     (case map_get (wsClients s) aideId of
        None \<Rightarrow> s
      | Some cs \<Rightarrow>
          (let cs' = set_delete cs w
           in if length cs' = 0
              then s\<lparr>wsClients := map_delete (wsClients s) aideId\<rparr>
              else s\<lparr>wsClients := map_set (wsClients s) aideId cs'\<rparr>))"

section \<open>The operations of the core as events\<close>

text \<open>
  An event is one run of a handler or one call of \<^verbatim>\<open>sendToAide\<close>, with what it
  receives from outside. A step gives the state it leaves and what it did to the
  sockets; a connection handler that ends with an exception has touched neither.
\<close>

datatype event =
    Dispatch aideId "(string \<times> jsval) list" string string
  | Connection ws "exn + query" fetch_result
  | Message ws aideId "exn + jsval"
  | Close ws aideId
  | RetryTick

definition step :: "config \<Rightarrow> sockets \<Rightarrow> state \<Rightarrow> event \<Rightarrow> state \<times> action list" where
  "step cfg socks s e =
     (case e of
        Dispatch aideId data alertId timestamp \<Rightarrow> snd (sendToAide socks s aideId data alertId timestamp)
      | Connection w url auth \<Rightarrow>
          (case on_connection cfg socks s w url auth of
             Inl err \<Rightarrow> (s, [])
           | Inr r \<Rightarrow> r)
      | Message w aideId parsed \<Rightarrow> on_message socks s w aideId parsed
      | Close w aideId \<Rightarrow> (on_close s w aideId, [])
      | RetryTick \<Rightarrow> (s, retryTick socks s))"

section \<open>The caregiver directory cache\<close>

text \<open>
  \<^verbatim>\<open>patientsCache\<close> and \<^verbatim>\<open>patientsCacheTs\<close> (server.js 94-96). The clock readings and
  the outcome of \<^verbatim>\<open>GET /patients\<close> are inputs; the \<^verbatim>\<open>ok\<close> flag of the response
  is not looked at by the code.
\<close>

record cache =
  patientsCache :: jsval
  patientsCacheTs :: int

definition cache_init :: cache where
  "cache_init = \<lparr>patientsCache = JNull, patientsCacheTs = 0\<rparr>"

definition PATIENTS_CACHE_TTL_MS :: int where
  "PATIENTS_CACHE_TTL_MS = 30000"

text \<open>The \<^verbatim>\<open>try\<close> block of \<^verbatim>\<open>fetchAllPatients\<close> (server.js 108-119).\<close>

definition refetch :: "fetch_result \<Rightarrow> int \<Rightarrow> exn + (jsval \<times> cache)" where
  "refetch res now' =
     (case res of
        FetchThrows \<Rightarrow> Inl FetchError
      | Response ok body \<Rightarrow>
          (case body of
             JsonThrows \<Rightarrow> Inl SyntaxError
           | JsonOk data \<Rightarrow> Inr (data, \<lparr>patientsCache = data, patientsCacheTs = now'\<rparr>)))"

text \<open>\<^verbatim>\<open>fetchAllPatients\<close> (server.js 98-124): the value returned and the cache left.\<close>

definition fetchAllPatients ::
  "config \<Rightarrow> cache \<Rightarrow> int \<Rightarrow> fetch_result \<Rightarrow> int \<Rightarrow> jsval \<times> cache" where
  "fetchAllPatients cfg c now res now' =
     (if truthy (patientsCache c) \<and> now - patientsCacheTs c < PATIENTS_CACHE_TTL_MS
      then (patientsCache c, c)
      else if API_BASE cfg = [] then (JArr [], c)
      else (case refetch res now' of
              Inl err \<Rightarrow> (JArr [], c)
            | Inr r \<Rightarrow> r))"

text \<open>\<^verbatim>\<open>String(v)\<close>, with decimal digits for a number.\<close>

fun digits :: "nat \<Rightarrow> string" where
  "digits n = (if n < 10 then [''0123456789'' ! n]
               else digits (n div 10) @ [''0123456789'' ! (n mod 10)])"

declare digits.simps [simp del]

fun join_with :: "string \<Rightarrow> string list \<Rightarrow> string" where
  "join_with sep [] = []"
| "join_with sep [x] = x"
| "join_with sep (x # y # ys) = x @ sep @ join_with sep (y # ys)"

fun js_String :: "jsval \<Rightarrow> string" where
  "js_String JUndefined = ''undefined''"
| "js_String JNull = ''null''"
| "js_String (JBool b) = (if b then ''true'' else ''false'')"
| "js_String (JNum n) = (if n < 0 then ''-'' @ digits (nat (- n)) else digits (nat n))"
| "js_String (JStr s) = s"
| "js_String (JArr xs) =
     join_with '','' (map (\<lambda>x. if x = JNull \<or> x = JUndefined then [] else js_String x) xs)"
| "js_String (JObj kvs) = ''[object Object]''"

text \<open>
  \<^verbatim>\<open>patients.find((x) => String(x.id_patient) === String(patientId))\<close>: the first
  element that matches, \<^verbatim>\<open>undefined\<close> when none does, and a TypeError when the
  callback reads \<^verbatim>\<open>id_patient\<close> of \<^verbatim>\<open>null\<close>.
\<close>

fun find_patient :: "jsval list \<Rightarrow> jsval \<Rightarrow> exn + jsval" where
  "find_patient [] patientId = Inr JUndefined"
| "find_patient (x # xs) patientId =
     (case get_prop x ''id_patient'' of
        Inl err \<Rightarrow> Inl err
      | Inr v \<Rightarrow> if js_String v = js_String patientId then Inr x else find_patient xs patientId)"

text \<open>\<^verbatim>\<open>getAideForPatient\<close> (server.js 126-137): its \<^verbatim>\<open>catch\<close> returns \<^verbatim>\<open>null\<close>.\<close>

definition getAideForPatient ::
  "config \<Rightarrow> cache \<Rightarrow> int \<Rightarrow> fetch_result \<Rightarrow> int \<Rightarrow> jsval \<Rightarrow> jsval \<times> cache" where
  "getAideForPatient cfg c now res now' patientId =
     (case fetchAllPatients cfg c now res now' of
        (patients, c') \<Rightarrow>
          (case patients of
             JArr xs \<Rightarrow>
               (case find_patient xs patientId of
                  Inl err \<Rightarrow> (JNull, c')
                | Inr p \<Rightarrow>
                    if \<not> truthy p then (JNull, c')
                    else if truthy (prop_of p ''fk_aide_soignant'')
                    then (prop_of p ''fk_aide_soignant'', c')
                    else (JNull, c'))
           | _ \<Rightarrow> (JNull, c')))"

section \<open>The topic router\<close>

text \<open>\<^verbatim>\<open>topic.split("/")\<close> and \<^verbatim>\<open>parts.slice(3).join("/")\<close>.\<close>

fun split_topic :: "string \<Rightarrow> string list" where
  "split_topic [] = [[]]"
| "split_topic (c # cs) =
     (if c = CHR ''/'' then [] # split_topic cs
      else (case split_topic cs of
              [] \<Rightarrow> [[c]]
            | p # ps \<Rightarrow> (c # p) # ps))"

text \<open>
  What the handler of an MQTT message receives from outside while it runs: the
  clock and the directory answer for the cache read, what \<^verbatim>\<open>JSON.parse(message)\<close>
  gives, the answer of the data-store call of the branch, and the UUID and time
  stamp \<^verbatim>\<open>sendToAide\<close> draws.
\<close>

record mqtt_inputs =
  in_now :: int
  in_patients :: fetch_result
  in_now' :: int
  in_parsed :: "exn + jsval"
  in_api :: fetch_result
  in_alertId :: string
  in_timestamp :: string

definition alert_fields ::
  "string \<Rightarrow> string \<Rightarrow> string \<Rightarrow> string \<Rightarrow> string \<Rightarrow> (string \<times> jsval) list" where
  "alert_fields type patientId alertType message topic =
     [(''type'', JStr type), (''patientId'', JStr patientId), (''alertType'', JStr alertType),
      (''message'', JStr message), (''topic'', JStr topic)]"

text \<open>
  The data-store call inside a \<^verbatim>\<open>try\<close> block: the \<^verbatim>\<open>fetch\<close> may throw, and so may
  \<^verbatim>\<open>response.json()\<close>, which also throws when \<^verbatim>\<open>response.text()\<close> has read the body
  before it (\<open>reads_text\<close>: the branch logs the text of a response that is not ok).
\<close>

definition api_call :: "bool \<Rightarrow> fetch_result \<Rightarrow> exn + unit" where
  "api_call reads_text res =
     (case res of
        FetchThrows \<Rightarrow> Inl FetchError
      | Response ok body \<Rightarrow>
          if reads_text \<and> \<not> ok then Inl TypeError
          else (case body of JsonThrows \<Rightarrow> Inl SyntaxError | JsonOk d \<Rightarrow> Inr ()))"

text \<open>\<^verbatim>\<open>try { ... } catch (err) { console.error(...) }\<close>: either way the handler goes on.\<close>

definition caught :: "exn + unit \<Rightarrow> unit" where
  "caught r = (case r of Inl err \<Rightarrow> () | Inr u \<Rightarrow> ())"

text \<open>
  \<^verbatim>\<open>if (aideId) { sendToAide(aideId, payload) } else { console.log(...) }\<close>.
\<close>

definition dispatch_if_aide ::
  "sockets \<Rightarrow> mqtt_inputs \<Rightarrow> cache \<Rightarrow> state \<Rightarrow> jsval \<Rightarrow> (string \<times> jsval) list
     \<Rightarrow> cache \<times> state \<times> action list" where
  "dispatch_if_aide socks inp c s aideId payload =
     (if truthy aideId
      then (case sendToAide socks s aideId payload (in_alertId inp) (in_timestamp inp) of
              (sent, s', acts) \<Rightarrow> (c, s', acts))
      else (c, s, []))"

text \<open>
  The handler of \<^verbatim>\<open>mqttClient.on("message")\<close> (server.js 350-555). It is an
  \<^verbatim>\<open>async\<close> function whose promise nobody awaits: \<open>Inl\<close> is an exception that leaves
  the handler, an unhandled rejection. In the \<^verbatim>\<open>delivery\<close> branch
  \<^verbatim>\<open>JSON.parse(message)\<close> and the reads of \<^verbatim>\<open>data\<close> stand outside every
  \<^verbatim>\<open>try\<close>; in the \<^verbatim>\<open>createclient\<close> branch the undeclared \<^verbatim>\<open>id_patient\<close> throws
  inside the \<^verbatim>\<open>try\<close>, before the \<^verbatim>\<open>fetch\<close>.
\<close>

definition on_mqtt_message ::
  "config \<Rightarrow> sockets \<Rightarrow> mqtt_inputs \<Rightarrow> cache \<Rightarrow> state \<Rightarrow> string \<Rightarrow> string
     \<Rightarrow> exn + (cache \<times> state \<times> action list)" where
  "on_mqtt_message cfg socks inp c s topic message =
     (let parts = filter (\<lambda>p. p \<noteq> []) (split_topic topic)
      in if 4 \<le> length parts \<and> parts ! 0 = ''alert'' \<and> parts ! 1 = ''box''
         then
           (let patientId = parts ! 2;
                alertType = join_with ''/'' (drop 3 parts)
            in case getAideForPatient cfg c (in_now inp) (in_patients inp) (in_now' inp)
                      (JStr patientId) of
                 (aideId, c') \<Rightarrow>
                   if alertType = ''mecanic'' then Inr (c', s, [])
                   else if alertType = ''seuilmedoc''
                   then Inr (dispatch_if_aide socks inp c' s aideId
                               (alert_fields ''warning'' patientId alertType message topic))
                   else if alertType = ''plusmedoc''
                   then Inr (dispatch_if_aide socks inp c' s aideId
                               (alert_fields ''critical'' patientId alertType message topic))
                   else if alertType = ''delivery''
                   then (case in_parsed inp of
                           Inl err \<Rightarrow> Inl err
                         | Inr data \<Rightarrow>
                             (case get_prop data ''heure_distrib'' of
                                Inl err \<Rightarrow> Inl err
                              | Inr heure_distrib \<Rightarrow>
                                  if truthy aideId
                                  then (case caught (api_call True (in_api inp)) of
                                          () \<Rightarrow> Inr (c', s, []))
                                  else Inr (c', s, [])))
                   else if alertType = ''getprescription''
                   then (case (if truthy aideId then caught (api_call True (in_api inp)) else ()) of
                           () \<Rightarrow> Inr (dispatch_if_aide socks inp c' s aideId
                                        (alert_fields ''request'' patientId alertType message topic)))
                   else if alertType = ''getmedocs''
                   then (case (if truthy aideId then caught (api_call False (in_api inp)) else ()) of
                           () \<Rightarrow> Inr (dispatch_if_aide socks inp c' s aideId
                                        (alert_fields ''request'' patientId alertType message topic)))
                   else if alertType = ''createclient''
                   then (case (if truthy aideId then caught (Inl ReferenceError) else ()) of
                           () \<Rightarrow> Inr (dispatch_if_aide socks inp c' s aideId
                                        (alert_fields ''request'' patientId alertType message topic)))
                   else Inr (c', s, []))
         else Inr (c, s, []))"

section \<open>Observing the state\<close>

text \<open>The sessions registered for a caregiver, its queue, and one pending alert.\<close>

definition sessions_of :: "state \<Rightarrow> aideId \<Rightarrow> ws list" where
  "sessions_of s a = (case map_get (wsClients s) a of None \<Rightarrow> [] | Some cs \<Rightarrow> cs)"

definition alerts_of :: "state \<Rightarrow> aideId \<Rightarrow> (string, jsval) jsmap" where
  "alerts_of s a = (case map_get (pendingAlerts s) a of None \<Rightarrow> [] | Some q \<Rightarrow> q)"

definition lookup_alert :: "state \<Rightarrow> aideId \<Rightarrow> string \<Rightarrow> jsval option" where
  "lookup_alert s a i = map_get (alerts_of s a) i"

text \<open>
  Membership in the two maps, entry by entry: the socket \<open>w\<close> stands in a Set kept
  for caregiver \<open>a\<close>; the payload \<open>p\<close> stands under the alert id \<open>i\<close> in a queue kept
  for caregiver \<open>a\<close>; the payload \<open>p\<close> is pending for caregiver \<open>a\<close>.
\<close>

definition registered :: "state \<Rightarrow> aideId \<Rightarrow> ws \<Rightarrow> bool" where
  "registered s a w = list_ex (\<lambda>(b, cs). b = a \<and> w \<in> set cs) (wsClients s)"



text \<open>
  An acknowledgment of alert \<open>i\<close>: a message that parses to a value with
  \<^verbatim>\<open>type === "ack"\<close> and \<^verbatim>\<open>alertId === i\<close>.
\<close>

definition is_ack :: "jsval \<Rightarrow> string \<Rightarrow> bool" where
  "is_ack data i =
     (truthy data \<and> prop_of data ''type'' = JStr ''ack'' \<and> prop_of data ''alertId'' = JStr i)"

fun acks :: "event \<Rightarrow> aideId \<Rightarrow> string \<Rightarrow> bool" where
  "acks (Message w b (Inr data)) a i = (b = a \<and> is_ack data i)"
| "acks e a i = False"

text \<open>
  What the runtime guarantees about an event in a state: a UUID drawn by
  \<^verbatim>\<open>sendToAide\<close> is not the key of a pending alert, a connecting socket is a new
  object that no Set holds yet, and a message arrives on a socket that its handshake
  registered under the caregiver id the handler closed over.
\<close>

fun wf_event :: "state \<Rightarrow> event \<Rightarrow> bool" where
  "wf_event s (Dispatch a data i t) = list_all (\<lambda>(b, q). i \<notin> fst ` set q) (pendingAlerts s)"
| "wf_event s (Connection w q auth) = list_all (\<lambda>(b, cs). w \<notin> set cs) (wsClients s)"
| "wf_event s (Message w a parsed) = (w \<in> set (sessions_of s a))"
| "wf_event s (Close w a) = True"
| "wf_event s RetryTick = True"



text \<open>
  A run of the core: the events in order, each with the state of the sockets it
  finds. \<open>run\<close> gives the state at the end, \<open>wf_run\<close> says each event is one the
  runtime can deliver in the state it meets.
\<close>

fun run :: "config \<Rightarrow> state \<Rightarrow> (sockets \<times> event) list \<Rightarrow> state" where
  "run cfg s [] = s"
| "run cfg s ((socks, e) # es) = run cfg (fst (step cfg socks s e)) es"

fun wf_run :: "config \<Rightarrow> state \<Rightarrow> (sockets \<times> event) list \<Rightarrow> bool" where
  "wf_run cfg s [] = True"
| "wf_run cfg s ((socks, e) # es) = (wf_event s e \<and> wf_run cfg (fst (step cfg socks s e)) es)"

text \<open>
  The rejections of a handshake: a missing id or password, a token that does not
  match the configured secret, a credential lookup that throws or answers not ok, a
  body that does not decode or decodes to \<^verbatim>\<open>null\<close>, or a stored password that
  differs from the supplied one.
\<close>

definition missing :: "string option \<Rightarrow> bool" where
  "missing x = (x = None \<or> x = Some [])"

definition rejected :: "config \<Rightarrow> query \<Rightarrow> fetch_result \<Rightarrow> bool" where
  "rejected cfg q auth =
     (missing (q_id q) \<or> missing (q_pwd q) \<or>
      (API_KEY cfg \<noteq> [] \<and> q_token q \<noteq> Some (API_KEY cfg)) \<or>
      (case auth of
         FetchThrows \<Rightarrow> True
       | Response ok body \<Rightarrow>
           (if ok
            then (case body of
                    JsonThrows \<Rightarrow> True
                  | JsonOk d \<Rightarrow>
                      d = JNull \<or> d = JUndefined \<or>
                      (case prop_of d ''mot_de_passe'' of
                         JStr stored \<Rightarrow> q_pwd q \<noteq> Some stored
                       | _ \<Rightarrow> True))
            else True)))"

section \<open>Concrete inputs\<close>

text \<open>
  A configuration with a shared secret, three behaviours of the network, and a small
  scenario: sockets 1 and 2 belong to the operators of caregivers A and B, and each
  caregiver has one low-stock alert.
\<close>

definition cfg0 :: config where
  "cfg0 = \<lparr>API_KEY = ''secret'', API_BASE = ''http://directory''\<rparr>"

definition open_sockets :: sockets where
  "open_sockets = \<lparr>readyState = (\<lambda>w. 1), sendThrows = (\<lambda>w. False)\<rparr>"

definition socket1_throws :: sockets where
  "socket1_throws = \<lparr>readyState = (\<lambda>w. 1), sendThrows = (\<lambda>w. w = 1)\<rparr>"

definition no_params :: query where
  "no_params = \<lparr>q_url = ''http://localhost/'', q_token = None, q_id = None, q_pwd = None\<rparr>"

definition query_A :: query where
  "query_A = \<lparr>q_url = ''http://localhost/?id=A&pwd=pwA&token=secret'',
              q_token = Some ''secret'', q_id = Some ''A'', q_pwd = Some ''pwA''\<rparr>"

definition query_B :: query where
  "query_B = \<lparr>q_url = ''http://localhost/?id=B&pwd=pwB&token=secret'',
              q_token = Some ''secret'', q_id = Some ''B'', q_pwd = Some ''pwB''\<rparr>"

definition wrong_token :: query where
  "wrong_token = \<lparr>q_url = ''http://localhost/?id=A&pwd=pwA&token=wrong'',
                  q_token = Some ''wrong'', q_id = Some ''A'', q_pwd = Some ''pwA''\<rparr>"

definition wrong_password :: query where
  "wrong_password = \<lparr>q_url = ''http://localhost/?id=A&pwd=bad&token=secret'',
                     q_token = Some ''secret'', q_id = Some ''A'', q_pwd = Some ''bad''\<rparr>"

definition password_record :: "string \<Rightarrow> fetch_result" where
  "password_record p = Response True (JsonOk (JObj [(''mot_de_passe'', JStr p)]))"

definition low_stock :: "(string \<times> jsval) list" where
  "low_stock = alert_fields ''warning'' ''P1'' ''seuilmedoc'' ''2'' ''alert/box/P1/seuilmedoc''"

definition ack_msg :: "string \<Rightarrow> jsval" where
  "ack_msg i = JObj [(''type'', JStr ''ack''), (''alertId'', JStr i)]"

definition connect_A :: event where
  "connect_A = Connection 1 (Inr query_A) (password_record ''pwA'')"

definition connect_B :: event where
  "connect_B = Connection 2 (Inr query_B) (password_record ''pwB'')"

definition two_caregivers :: state where
  "two_caregivers =
     \<lparr>wsClients = [(JStr ''A'', [1]), (JStr ''B'', [2])],
      pendingAlerts = [(JStr ''A'', [(''u1'', stamp low_stock ''u1'' ''t1'')]),
                       (JStr ''B'', [(''u2'', stamp low_stock ''u2'' ''t2'')])]\<rparr>"

definition B_offline :: state where
  "B_offline =
     \<lparr>wsClients = [],
      pendingAlerts = [(JStr ''B'', [(''u2'', stamp low_stock ''u2'' ''t2'')])]\<rparr>"


definition after_dispatch :: state where
  "after_dispatch = fst (snd (sendToAide open_sockets two_caregivers (JStr ''A'') low_stock ''u3'' ''t3''))"

definition quiet_run :: "(sockets \<times> event) list" where
  "quiet_run =
     [(socket1_throws, RetryTick),
      (open_sockets, Message 1 (JStr ''A'') (Inr (JObj [(''type'', JStr ''resend_pending'')]))),
      (open_sockets, Message 1 (JStr ''A'') (Inr (ack_msg ''u1''))),
      (open_sockets, Close 1 (JStr ''A''))]"

definition stale_cache :: cache where
  "stale_cache =
     \<lparr>patientsCache = JArr [JObj [(''id_patient'', JStr ''P1''), (''fk_aide_soignant'', JStr ''A'')]],
      patientsCacheTs = 0\<rparr>"

definition bad_delivery :: mqtt_inputs where
  "bad_delivery =
     \<lparr>in_now = 0, in_patients = FetchThrows, in_now' = 0, in_parsed = Inl SyntaxError,
      in_api = FetchThrows, in_alertId = ''u1'', in_timestamp = ''t1''\<rparr>"

section \<open>Facts about sends, maps and sets\<close>

lemma wsSendSafe_live: "wsSendSafe socks w obj = (if live socks w then [WsSent w obj] else [])"
  by (simp add: wsSendSafe_def ws_send_def live_def)

lemma broadcast_sessions:
  "concat (map (\<lambda>w. wsSendSafe socks w p) cs) = map (\<lambda>w. WsSent w p) (filter (live socks) cs)"
  by (induction cs) (simp_all add: wsSendSafe_live)

lemma flush_payloads:
  "concat (map (wsSendSafe socks w) ps) = (if live socks w then map (WsSent w) ps else [])"
  by (induction ps) (simp_all add: wsSendSafe_live)

lemma map_get_Nil: "map_get [] k = None"
  by (simp add: map_get_def)

lemma map_get_set: "map_get (map_set m k v) k' = (if k' = k then Some v else map_get m k')"
  by (simp add: map_get_def map_set_def update_conv')

lemma map_has_set: "map_has (map_set m k v) k' = (k' = k \<or> map_has m k')"
  by (simp add: map_has_def map_set_def update_conv')

lemma map_get_delete: "map_get (map_delete m k) k' = (if k' = k then None else map_get m k')"
  by (simp add: map_get_def map_delete_def delete_conv')

lemma map_has_get: "map_has m k = (map_get m k \<noteq> None)"
  by (simp add: map_has_def map_get_def)






lemma registered_iff:
  "registered s a w = (\<exists>cs. (a, cs) \<in> set (wsClients s) \<and> w \<in> set cs)"
  by (auto simp: registered_def list_ex_iff)



lemma stamp_fields:
  "prop_of (stamp data i t) ''alertId'' = JStr i \<and> prop_of (stamp data i t) ''timestamp'' = JStr t"
  by (simp add: stamp_def update_conv')

section \<open>Evaluating the scenario\<close>

lemmas eval_defs =
  step_def on_connection_def handshake_def authenticate_def register_session_def flush_def sendToAide_def
  on_message_def on_close_def retryTick_def retry_one_def wsSendSafe_def ws_send_def reject_def
  get_prop_def stamp_def alert_fields_def
  map_get_def map_has_def map_set_def map_delete_def map_values_def set_add_def set_delete_def
  sessions_of_def alerts_of_def lookup_alert_def is_ack_def
  cfg0_def open_sockets_def socket1_throws_def no_params_def query_A_def query_B_def wrong_token_def wrong_password_def password_record_def low_stock_def
  ack_msg_def connect_A_def connect_B_def two_caregivers_def init_def


lemma after_dispatch_eq:
  "after_dispatch =
     \<lparr>wsClients = [(JStr ''A'', [1]), (JStr ''B'', [2])],
      pendingAlerts = [(JStr ''A'', [(''u1'', stamp low_stock ''u1'' ''t1''),
                                     (''u3'', stamp low_stock ''u3'' ''t3'')]),
                       (JStr ''B'', [(''u2'', stamp low_stock ''u2'' ''t2'')])]\<rparr>"
  by (simp add: after_dispatch_def sendToAide_def Let_def two_caregivers_def map_get_def
      map_has_def map_set_def)


section \<open>Dispatch\<close>

lemma sendToAide_result:
  "sendToAide socks s a data i t =
     (sessions_of s a \<noteq> [],
      fst (snd (sendToAide socks s a data i t)),
      map (\<lambda>w. WsSent w (stamp data i t)) (filter (live socks) (sessions_of s a)))"
  by (auto simp: sendToAide_def Let_def sessions_of_def broadcast_sessions split: option.splits)

lemma sendToAide_stored:
  "lookup_alert (fst (snd (sendToAide socks s a data i t))) a i = Some (stamp data i t)"
  by (auto simp: sendToAide_def Let_def lookup_alert_def alerts_of_def
      map_get_set map_has_get split: option.splits)

text \<open>
  C1. Every call \<open>sendToAide(aideId, data)\<close> stores the payload, stamped with the new
  alert id and the time stamp, in the queue of that caregiver, whether or not anyone is
  connected, and leaves the registry alone. It returns false when no session is
  registered for the caregiver and true when at least one is. The sends it makes are
  that same stored payload, once to each registered session in order; a send goes
  through on the sessions whose socket is open and does not throw (\<open>wsSendSafe\<close>
  skips the others), so with no session there is no send.
\<close>

theorem sendToAide_enqueues_then_broadcasts:
  "(case sendToAide socks s a data i t of
      (delivered, s', acts) \<Rightarrow>
        lookup_alert s' a i = Some (stamp data i t) \<and>
        prop_of (stamp data i t) ''alertId'' = JStr i \<and>
        prop_of (stamp data i t) ''timestamp'' = JStr t \<and>
        wsClients s' = wsClients s \<and>
        delivered = (sessions_of s a \<noteq> []) \<and>
        acts = map (\<lambda>w. WsSent w (stamp data i t)) (filter (live socks) (sessions_of s a)))"
  by (auto simp: sendToAide_def Let_def lookup_alert_def alerts_of_def sessions_of_def
      map_get_set map_has_get broadcast_sessions stamp_fields split: option.splits)

section \<open>The handshake\<close>

lemma flush_eq:
  "flush socks s a w = (if live socks w then map (WsSent w) (map_values (alerts_of s a)) else [])"
proof (cases "map_get (pendingAlerts s) a")
  case None
  then show ?thesis by (simp add: flush_def alerts_of_def map_values_def)
next
  case (Some queue)
  then show ?thesis by (simp add: flush_def alerts_of_def flush_payloads)
qed

lemma register_session_sessions:
  "w \<in> set (sessions_of (register_session s a w) a)"
  by (auto simp: register_session_def Let_def sessions_of_def map_get_set map_has_get set_add_def
      split: option.splits)

lemma register_session_alerts:
  "alerts_of (register_session s a w) b = alerts_of s b"
  by (auto simp: register_session_def Let_def alerts_of_def map_get_set map_has_get
      split: option.splits)

lemma connection_cases:
  "(\<exists>obj. handshake cfg socks s w q auth = (s, reject socks w obj)) \<or>
   (\<exists>a. handshake cfg socks s w q auth =
          (register_session s a w, flush socks (register_session s a w) a w))"
  by (auto simp: handshake_def authenticate_def Let_def
      split: option.splits fetch_result.splits json_result.splits sum.splits)

lemma handshake_accepts:
  assumes "q_id q = Some aid" and "aid \<noteq> []" and "q_pwd q = Some pwd" and "pwd \<noteq> []"
    and "API_KEY cfg = [] \<or> q_token q = Some (API_KEY cfg)"
    and "auth = Response True (JsonOk d)"
    and "get_prop d ''mot_de_passe'' = Inr (JStr pwd)"
  shows "handshake cfg socks s w q auth =
          (register_session s (JStr aid) w, flush socks (register_session s (JStr aid) w) (JStr aid) w)"
  using assms by (auto simp: handshake_def authenticate_def Let_def)

text \<open>
  C3. A handshake that supplies id and password, carries the configured secret as
  token when one is configured, and whose credential lookup answers ok with a record
  whose \<^verbatim>\<open>mot_de_passe\<close> is the supplied password, registers the socket under the
  operator id, leaves that operator's queue as it was, and sends every alert pending
  for that id, in order, over the new socket (the sends go through when the socket is
  still open and its send does not throw, as everywhere with \<open>wsSendSafe\<close>).
\<close>

theorem handshake_registers_then_flushes:
  assumes "q_id q = Some aid" and "aid \<noteq> []" and "q_pwd q = Some pwd" and "pwd \<noteq> []"
    and "API_KEY cfg = [] \<or> q_token q = Some (API_KEY cfg)"
    and "auth = Response True (JsonOk d)"
    and "get_prop d ''mot_de_passe'' = Inr (JStr pwd)"
  shows "\<exists>s' acts.
           on_connection cfg socks s w (Inr q) auth = Inr (s', acts) \<and>
           w \<in> set (sessions_of s' (JStr aid)) \<and>
           alerts_of s' (JStr aid) = alerts_of s (JStr aid) \<and>
           acts = (if live socks w
                   then map (WsSent w) (map_values (alerts_of s (JStr aid)))
                   else [])"
  using handshake_accepts [OF assms, of socks s w]
  by (simp add: on_connection_def register_session_sessions register_session_alerts flush_eq)

text \<open>
  An alert is dispatched for B while nobody is connected, and the call returns false.
  Then the operator of B connects: socket 2 is registered and the alert is sent on it.
\<close>

theorem handshake_registers_then_flushes_witness:
  "sendToAide open_sockets init (JStr ''B'') low_stock ''u2'' ''t2'' = (False, B_offline, []) \<and>
   (\<exists>s'. on_connection cfg0 open_sockets B_offline 2 (Inr query_B) (password_record ''pwB'') =
            Inr (s', [WsSent 2 (stamp low_stock ''u2'' ''t2'')]) \<and>
          2 \<in> set (sessions_of s' (JStr ''B'')))"
proof -
  have h1: "q_id query_B = Some ''B''"
    and h3: "q_pwd query_B = Some ''pwB''"
    and h5: "API_KEY cfg0 = [] \<or> q_token query_B = Some (API_KEY cfg0)"
    and h6: "password_record ''pwB'' = Response True (JsonOk (JObj [(''mot_de_passe'', JStr ''pwB'')]))"
    and h7: "get_prop (JObj [(''mot_de_passe'', JStr ''pwB'')]) ''mot_de_passe'' = Inr (JStr ''pwB'')"
    by (simp_all add: query_B_def cfg0_def password_record_def get_prop_def)
  have h2: "''B'' \<noteq> []" and h4: "''pwB'' \<noteq> []" by simp_all
  have off: "sendToAide open_sockets init (JStr ''B'') low_stock ''u2'' ''t2'' = (False, B_offline, [])"
    by (simp add: sendToAide_def Let_def init_def B_offline_def map_get_def map_has_def map_set_def)
  have l: "live open_sockets 2" by (simp add: live_def open_sockets_def)
  have a: "map_values (alerts_of B_offline (JStr ''B'')) = [stamp low_stock ''u2'' ''t2'']"
    by (simp add: alerts_of_def B_offline_def map_get_def map_values_def)
  from handshake_registers_then_flushes [OF h1 h2 h3 h4 h5 h6 h7, where socks = open_sockets and s = B_offline and w = 2]
    off l a
  show ?thesis by auto
qed

text \<open>
  On a URL that parses, the checks come in the order id, password, token. When the
  operator id is missing (absent or empty), whatever else the URL carries, the
  handler answers with the missing-id error and closes, and the state is untouched; in
  particular with neither id nor password the error is the one about the id. When id
  and password are there, a secret is configured and the token differs from it, the
  handler answers with the invalid-token error and closes, whatever the credential
  lookup would have said. On an open socket the answer is exactly the error message
  followed by the close.
\<close>

lemma checks_id_then_token:
  "(missing (q_id q) \<longrightarrow>
      on_connection cfg socks s w (Inr q) auth =
        Inr (s, reject socks w (error_obj ''Missing 'id' query param''))) \<and>
   (\<not> missing (q_id q) \<and> \<not> missing (q_pwd q) \<and>
    API_KEY cfg \<noteq> [] \<and> q_token q \<noteq> Some (API_KEY cfg) \<longrightarrow>
      on_connection cfg socks s w (Inr q) auth = Inr (s, reject socks w (invalid_token_obj cfg q))) \<and>
   (live socks w \<longrightarrow> reject socks w obj = [WsSent w obj, WsClose w])"
  by (auto simp: missing_def on_connection_def handshake_def reject_def wsSendSafe_live
      split: option.splits)

text \<open>
  A URL with no parameter at all gets the missing-id error; a wrong token is refused
  although id and password match the directory.
\<close>

lemma checks_id_then_token_example:
  "on_connection cfg0 open_sockets init 1 (Inr no_params) (password_record ''pwA'') =
     Inr (init, [WsSent 1 (error_obj ''Missing 'id' query param''), WsClose 1]) \<and>
   on_connection cfg0 open_sockets init 1 (Inr wrong_token) (password_record ''pwA'') =
     Inr (init, [WsSent 1 (invalid_token_obj cfg0 wrong_token), WsClose 1])"
  using checks_id_then_token
          [where q = no_params and cfg = cfg0 and socks = open_sockets
             and s = init and w = 1 and auth = "password_record ''pwA''"
             and obj = "error_obj ''Missing 'id' query param''"]
        checks_id_then_token
          [where q = wrong_token and cfg = cfg0
             and socks = open_sockets and s = init and w = 1 and auth = "password_record ''pwA''"
             and obj = "invalid_token_obj cfg0 wrong_token"]
  by (simp add: missing_def no_params_def wrong_token_def cfg0_def live_def open_sockets_def)

text \<open>
  A connection whose URL does not parse gets no answer at all: the exception of
  \<^verbatim>\<open>new URL\<close> leaves the handler, whatever the state, the socket and the directory
  are, and the step it makes sends nothing and closes nothing.
\<close>

lemma url_failure_escapes:
  "on_connection cfg socks s w (Inl err) auth = Inl err \<and>
   step cfg socks s (Connection w (Inl err) auth) = (s, [])"
  by (simp add: on_connection_def step_def)

text \<open>
  C7 does not hold of the code. A connection with the request target \<^verbatim>\<open>//\<close>
  carries no id, no password and no token, and \<^verbatim>\<open>new URL("//", "http://localhost")\<close>
  throws a TypeError (the URL has no host). That statement stands outside the
  \<^verbatim>\<open>try\<close>: the handler ends with the exception, and the missing-id error is not
  sent and the socket is not closed.
\<close>

theorem unparsable_url_gets_no_answer:
  "on_connection cfg0 open_sockets init 1 (Inl TypeError) (password_record ''pwA'') = Inl TypeError"
  by (simp add: on_connection_def)

lemma authenticate_cases:
  "authenticate socks s w aid pwd auth = Inr (s', acts) \<Longrightarrow>
     (s' = s \<and> (\<exists>obj. acts = reject socks w obj)) \<or>
     (\<exists>d. auth = Response True (JsonOk d) \<and> get_prop d ''mot_de_passe'' = Inr (JStr pwd))"
  by (auto simp: authenticate_def Let_def
      split: fetch_result.splits json_result.splits sum.splits if_splits)

lemma rejected_lookup:
  assumes "case auth of
             FetchThrows \<Rightarrow> True
           | Response ok body \<Rightarrow>
               (if ok
                then (case body of
                        JsonThrows \<Rightarrow> True
                      | JsonOk d \<Rightarrow>
                          d = JNull \<or> d = JUndefined \<or>
                          (case prop_of d ''mot_de_passe'' of
                             JStr stored \<Rightarrow> pw \<noteq> Some stored
                           | _ \<Rightarrow> True))
                else True)"
    and "pw = Some pwd"
  shows "\<not> (\<exists>d. auth = Response True (JsonOk d) \<and> get_prop d ''mot_de_passe'' = Inr (JStr pwd))"
proof
  assume "\<exists>d. auth = Response True (JsonOk d) \<and> get_prop d ''mot_de_passe'' = Inr (JStr pwd)"
  then obtain d where d: "auth = Response True (JsonOk d)"
    and g: "get_prop d ''mot_de_passe'' = Inr (JStr pwd)" by blast
  from g have "d \<noteq> JNull" "d \<noteq> JUndefined" "prop_of d ''mot_de_passe'' = JStr pwd"
    by (auto simp: get_prop_def split: if_splits)
  with assms d show False by simp
qed

lemma rejected_handshake:
  assumes "rejected cfg q auth"
  shows "\<exists>obj. handshake cfg socks s w q auth = (s, reject socks w obj)"
proof (cases "missing (q_id q) \<or> missing (q_pwd q) \<or>
              (API_KEY cfg \<noteq> [] \<and> q_token q \<noteq> Some (API_KEY cfg))")
  case True
  then show ?thesis
    by (auto simp: missing_def handshake_def split: option.splits)
next
  case False
  then obtain aid pwd where ids: "q_id q = Some aid" "aid \<noteq> []" "q_pwd q = Some pwd" "pwd \<noteq> []"
    by (auto simp: missing_def)
  from False ids have conn: "handshake cfg socks s w q auth =
      (case authenticate socks s w aid pwd auth of
         Inl err \<Rightarrow> (s, reject socks w (error_obj ''Internal server error.''))
       | Inr r \<Rightarrow> r)"
    by (auto simp: handshake_def)
  from assms False have "case auth of
             FetchThrows \<Rightarrow> True
           | Response ok body \<Rightarrow>
               (if ok
                then (case body of
                        JsonThrows \<Rightarrow> True
                      | JsonOk d \<Rightarrow>
                          d = JNull \<or> d = JUndefined \<or>
                          (case prop_of d ''mot_de_passe'' of
                             JStr stored \<Rightarrow> q_pwd q \<noteq> Some stored
                           | _ \<Rightarrow> True))
                else True)"
    unfolding rejected_def by blast
  from rejected_lookup [OF this ids(3)]
  have no: "\<not> (\<exists>d. auth = Response True (JsonOk d) \<and>
      get_prop d ''mot_de_passe'' = Inr (JStr pwd))" .
  show ?thesis
  proof (cases "authenticate socks s w aid pwd auth")
    case (Inl err)
    with conn show ?thesis by auto
  next
    case (Inr r)
    obtain s' acts where r: "r = (s', acts)" by (cases r)
    from authenticate_cases [of socks s w aid pwd auth s' acts] Inr r no
    have "s' = s \<and> (\<exists>obj. acts = reject socks w obj)" by blast
    with conn Inr r show ?thesis by auto
  qed
qed

text \<open>
  C10. A rejected handshake, for whichever reason (missing id, missing password,
  token that does not match, lookup that throws, answers not ok or does not decode,
  wrong password), leaves the session registry and the pending-alert store exactly as
  they were: the handler returns the state it was given, and all it does is answer
  one error object and close the socket.
\<close>

theorem rejected_handshake_keeps_state:
  assumes "rejected cfg q auth"
  shows "\<exists>obj. on_connection cfg socks s w (Inr q) auth = Inr (s, reject socks w obj)"
  using rejected_handshake [OF assms, of socks s w] by (simp add: on_connection_def)

text \<open>A wrong password on socket 3: the scenario state is returned as it was.\<close>

theorem rejected_handshake_keeps_state_witness:
  "rejected cfg0 wrong_password (password_record ''pwA'') \<and>
   (\<exists>obj. on_connection cfg0 open_sockets two_caregivers 3 (Inr wrong_password)
             (password_record ''pwA'') = Inr (two_caregivers, reject open_sockets 3 obj))"
proof -
  have r: "rejected cfg0 wrong_password (password_record ''pwA'')"
    by (simp add: rejected_def missing_def wrong_password_def cfg0_def password_record_def)
  from rejected_handshake_keeps_state [OF r, where socks = open_sockets and s = two_caregivers and w = 3] r
  show ?thesis by simp
qed

text \<open>
  Conversely a handshake that is not rejected registers the socket under its id and
  flushes the queue of that id: the rejections above are all there are.
\<close>

lemma accepted_handshake_registers:
  assumes "\<not> rejected cfg q auth"
  shows "\<exists>aid. q_id q = Some aid \<and>
           on_connection cfg socks s w (Inr q) auth =
             Inr (register_session s (JStr aid) w,
                  flush socks (register_session s (JStr aid) w) (JStr aid) w)"
proof -
  from assms obtain aid pwd where ids: "q_id q = Some aid" "aid \<noteq> []" "q_pwd q = Some pwd" "pwd \<noteq> []"
    by (auto simp: rejected_def missing_def)
  from assms have tok: "API_KEY cfg = [] \<or> q_token q = Some (API_KEY cfg)"
    by (auto simp: rejected_def)
  from assms obtain d where d: "auth = Response True (JsonOk d)"
    by (cases auth) (auto simp: rejected_def split: json_result.splits if_splits)
  from assms d ids have "d \<noteq> JNull" "d \<noteq> JUndefined" "prop_of d ''mot_de_passe'' = JStr pwd"
    by (auto simp: rejected_def split: jsval.splits)
  then have "get_prop d ''mot_de_passe'' = Inr (JStr pwd)"
    by (simp add: get_prop_def)
  with ids tok d show ?thesis
    by (auto simp: on_connection_def handshake_def authenticate_def Let_def)
qed

section \<open>Acknowledgments\<close>

text \<open>
  C8. Acknowledging an alert id a second time changes nothing: the handler returns
  the state the first acknowledgment left, and sends nothing either time. After an
  acknowledgment of an alert id (a UUID, so not the empty string) the queue of that
  caregiver has no entry for it. Acknowledging an id that is not in the queue leaves
  the state as it is, with no error.
\<close>

theorem ack_idempotent:
  "is_ack data i \<Longrightarrow>
   (case on_message socks s w a (Inr data) of
      (s1, acts1) \<Rightarrow>
        acts1 = [] \<and>
        on_message socks s1 w a (Inr data) = (s1, []) \<and>
        (i \<noteq> [] \<longrightarrow> lookup_alert s1 a i = None) \<and>
        (lookup_alert s a i = None \<longrightarrow> s1 = s))"
  by (auto simp: on_message_def is_ack_def lookup_alert_def alerts_of_def map_get_set
      map_has_get map_get_delete map_get_Nil split: option.splits)

text \<open>The operator of A acknowledges u1 twice: the entry is gone after the first, and the second changes nothing.\<close>

theorem ack_idempotent_witness:
  "is_ack (ack_msg ''u1'') ''u1'' \<and>
   lookup_alert two_caregivers (JStr ''A'') ''u1'' = Some (stamp low_stock ''u1'' ''t1'') \<and>
   lookup_alert (fst (on_message open_sockets two_caregivers 1 (JStr ''A'') (Inr (ack_msg ''u1''))))
     (JStr ''A'') ''u1'' = None \<and>
   on_message open_sockets
     (fst (on_message open_sockets two_caregivers 1 (JStr ''A'') (Inr (ack_msg ''u1''))))
     1 (JStr ''A'') (Inr (ack_msg ''u1''))
   = (fst (on_message open_sockets two_caregivers 1 (JStr ''A'') (Inr (ack_msg ''u1''))), [])"
proof -
  have a: "is_ack (ack_msg ''u1'') ''u1''"
    by (simp add: is_ack_def ack_msg_def)
  have l: "lookup_alert two_caregivers (JStr ''A'') ''u1'' = Some (stamp low_stock ''u1'' ''t1'')"
    by (simp add: lookup_alert_def alerts_of_def map_get_def two_caregivers_def)
  from ack_idempotent [OF a, where socks = open_sockets and s = two_caregivers and w = 1 and a = "JStr ''A''"] a l
  show ?thesis by (simp add: case_prod_beta)
qed

section \<open>The retry sweep\<close>

lemma retry_one_eq:
  "retry_one socks s (a, cs) =
     concat (map (\<lambda>p. map (\<lambda>w. WsSent w p) (filter (live socks) cs)) (map_values (alerts_of s a)))"
proof (cases "map_get (pendingAlerts s) a")
  case None
  then show ?thesis by (simp add: retry_one_def alerts_of_def map_values_def)
next
  case (Some queue)
  then show ?thesis
    by (cases queue) (simp_all add: retry_one_def alerts_of_def map_values_def broadcast_sessions)
qed

text \<open>
  C6. In one tick of the retry timer, every caregiver in the registry has every one
  of its pending alerts sent to every one of its sessions whose socket is open and
  does not throw, whatever the sockets of the other caregivers do: a send that throws
  is swallowed where it happens and the tick goes on with the next socket and the
  next caregiver.
\<close>

theorem retry_reaches_every_caregiver:
  assumes "(a, cs) \<in> set (wsClients s)" and "w \<in> set cs" and "live socks w"
    and "map_get (pendingAlerts s) a = Some queue" and "(i, p) \<in> set queue"
  shows "WsSent w p \<in> set (retryTick socks s)"
proof -
  from assms(4,5) have "p \<in> set (map_values (alerts_of s a))"
    by (force simp: alerts_of_def map_values_def)
  with assms(2,3) have "WsSent w p \<in> set (retry_one socks s (a, cs))"
    by (auto simp: retry_one_eq)
  with assms(1) show ?thesis
    by (auto simp: retryTick_def)
qed

text \<open>The send on the socket of A throws; the same tick still sends the alert of B on socket 2.\<close>

theorem retry_reaches_every_caregiver_witness:
  "sendThrows socket1_throws 1 \<and> registered two_caregivers (JStr ''A'') 1 \<and>
   live socket1_throws 2 \<and>
   WsSent 2 (stamp low_stock ''u2'' ''t2'') \<in> set (retryTick socket1_throws two_caregivers)"
proof -
  have h1: "(JStr ''B'', [2]) \<in> set (wsClients two_caregivers)"
    and h2: "(2::nat) \<in> set [2]"
    and h3: "live socket1_throws 2"
    and h4: "map_get (pendingAlerts two_caregivers) (JStr ''B'') = Some [(''u2'', stamp low_stock ''u2'' ''t2'')]"
    and h5: "(''u2'', stamp low_stock ''u2'' ''t2'') \<in> set [(''u2'', stamp low_stock ''u2'' ''t2'')]"
    by (simp_all add: two_caregivers_def live_def socket1_throws_def map_get_def)
  have t: "sendThrows socket1_throws 1" by (simp add: socket1_throws_def)
  have r: "registered two_caregivers (JStr ''A'') 1"
    by (simp add: registered_iff two_caregivers_def)
  from retry_reaches_every_caregiver [OF h1 h2 h3 h4 h5] h3 t r show ?thesis by simp
qed

section \<open>Only an acknowledgment removes a pending alert\<close>

lemma step_connection:
  "step cfg socks s (Connection w url auth) =
     (case url of Inl err \<Rightarrow> (s, []) | Inr q \<Rightarrow> handshake cfg socks s w q auth)"
  by (simp add: step_def on_connection_def split: sum.splits)

lemma connection_alerts:
  "alerts_of (fst (handshake cfg socks s w q auth)) a = alerts_of s a"
  using connection_cases [of cfg socks s w q auth]
  by (auto simp: register_session_alerts)

lemma fresh_not_pending:
  assumes "list_all (\<lambda>(b, q). j \<notin> fst ` set q) (pendingAlerts s)"
    and "lookup_alert s a i = Some p"
  shows "j \<noteq> i"
proof
  assume "j = i"
  from assms(2) obtain q where q: "map_of (pendingAlerts s) a = Some q" "map_of q i = Some p"
    by (auto simp: lookup_alert_def alerts_of_def map_get_def split: option.splits)
  then have "(a, q) \<in> set (pendingAlerts s)" "(i, p) \<in> set q"
    by (auto dest: map_of_SomeD)
  with assms(1) \<open>j = i\<close> show False
    by (force simp: list_all_iff)
qed

lemma dispatch_keeps:
  assumes "lookup_alert s a i = Some p" and "j \<noteq> i"
  shows "lookup_alert (fst (snd (sendToAide socks s b data j t))) a i = Some p"
  using assms
  by (auto simp: sendToAide_def Let_def lookup_alert_def alerts_of_def map_get_set map_has_get
      map_get_Nil split: option.splits)

lemma message_keeps:
  assumes "lookup_alert s a i = Some p" and "\<not> acks (Message w b parsed) a i"
  shows "lookup_alert (fst (on_message socks s w b parsed)) a i = Some p"
proof (cases parsed)
  case (Inl err)
  with assms show ?thesis by (simp add: on_message_def)
next
  case (Inr data)
  show ?thesis
  proof (cases "b = a")
    case True
    with assms Inr have "\<not> is_ack data i" by simp
    with assms(1) Inr True show ?thesis
      by (auto simp: on_message_def is_ack_def lookup_alert_def alerts_of_def map_get_set
          map_get_delete split: option.splits jsval.splits)
  next
    case False
    with assms(1) Inr show ?thesis
      by (auto simp: on_message_def lookup_alert_def alerts_of_def map_get_set
          split: option.splits jsval.splits)
  qed
qed

lemma close_keeps: "lookup_alert (on_close s w b) a i = lookup_alert s a i"
  by (auto simp: on_close_def Let_def lookup_alert_def alerts_of_def split: option.splits)

lemma step_keeps:
  assumes "lookup_alert s a i = Some p" and "\<not> acks e a i" and "wf_event s e"
  shows "lookup_alert (fst (step cfg socks s e)) a i = Some p"
proof (cases e)
  case (Dispatch b data j t)
  with assms(3) have "list_all (\<lambda>(b, q). j \<notin> fst ` set q) (pendingAlerts s)" by simp
  from fresh_not_pending [OF this assms(1)] have "j \<noteq> i" .
  with assms(1) Dispatch show ?thesis by (simp add: step_def dispatch_keeps)
next
  case (Connection w url auth)
  with assms(1) show ?thesis
    by (cases url) (simp_all add: step_connection lookup_alert_def connection_alerts)
next
  case (Message w b parsed)
  with assms show ?thesis by (simp add: step_def message_keeps)
next
  case (Close w b)
  with assms(1) show ?thesis by (simp add: step_def close_keeps)
next
  case RetryTick
  with assms(1) show ?thesis by (simp add: step_def)
qed

lemma run_keeps:
  "lookup_alert s a i = Some p \<Longrightarrow> wf_run cfg s es \<Longrightarrow>
   list_all (\<lambda>x. \<not> acks (snd x) a i) es \<Longrightarrow> lookup_alert (run cfg s es) a i = Some p"
proof (induction es arbitrary: s)
  case Nil
  then show ?case by simp
next
  case (Cons x es)
  obtain socks e where x: "x = (socks, e)" by (cases x)
  with Cons.prems have "lookup_alert (fst (step cfg socks s e)) a i = Some p"
    by (auto intro: step_keeps)
  with Cons x show ?case by simp
qed

text \<open>
  C2. Take any state and any run of the core from it (dispatches, handshakes with
  their flush, retry ticks, resend requests and other messages, disconnects) in which
  no event is an acknowledgment, by a session of caregiver \<open>a\<close>, that carries the alert
  id \<open>i\<close>. Then an alert pending for \<open>a\<close> under \<open>i\<close> at the start is still pending,
  with the same payload, at the end. In particular this holds from the state that a
  dispatch returning true has left: the alert it stored stays in the store until such
  an acknowledgment arrives.
\<close>

theorem pending_removed_only_by_ack:
  assumes "wf_run cfg s es" and "list_all (\<lambda>x. \<not> acks (snd x) a i) es"
  shows "(lookup_alert s a i = Some p \<longrightarrow> lookup_alert (run cfg s es) a i = Some p) \<and>
         (sendToAide socks0 s0 a data i t = (True, s, acts) \<longrightarrow>
            lookup_alert (run cfg s es) a i = Some (stamp data i t))"
proof (intro conjI impI)
  assume "lookup_alert s a i = Some p"
  with assms show "lookup_alert (run cfg s es) a i = Some p" by (simp add: run_keeps)
next
  assume "sendToAide socks0 s0 a data i t = (True, s, acts)"
  then have "s = fst (snd (sendToAide socks0 s0 a data i t))" by simp
  then have "lookup_alert s a i = Some (stamp data i t)" by (simp add: sendToAide_stored)
  with assms show "lookup_alert (run cfg s es) a i = Some (stamp data i t)" by (simp add: run_keeps)
qed

text \<open>After a dispatch of u3 that returned true, a retry tick, a resend request, an acknowledgment of u1 and the disconnect leave u3 pending.\<close>

theorem pending_removed_only_by_ack_witness:
  "wf_run cfg0 after_dispatch quiet_run \<and>
   list_all (\<lambda>x. \<not> acks (snd x) (JStr ''A'') ''u3'') quiet_run \<and>
   sendToAide open_sockets two_caregivers (JStr ''A'') low_stock ''u3'' ''t3'' =
     (True, after_dispatch, [WsSent 1 (stamp low_stock ''u3'' ''t3'')]) \<and>
   lookup_alert (run cfg0 after_dispatch quiet_run) (JStr ''A'') ''u3'' = Some (stamp low_stock ''u3'' ''t3'')"
proof -
  have w: "wf_run cfg0 after_dispatch quiet_run"
    by (simp add: after_dispatch_eq quiet_run_def eval_defs Let_def)
  have n: "list_all (\<lambda>x. \<not> acks (snd x) (JStr ''A'') ''u3'') quiet_run"
    by (simp add: quiet_run_def is_ack_def ack_msg_def)
  have d: "sendToAide open_sockets two_caregivers (JStr ''A'') low_stock ''u3'' ''t3'' =
     (True, after_dispatch, [WsSent 1 (stamp low_stock ''u3'' ''t3'')])"
    by (subst sendToAide_result)
      (simp add: after_dispatch_def sessions_of_def map_get_def two_caregivers_def live_def
        open_sockets_def)
  from pending_removed_only_by_ack [OF w n, where p = "stamp low_stock ''u3'' ''t3''" and ?socks0.0 = open_sockets
      and ?s0.0 = two_caregivers and data = low_stock and t = "''t3''"
      and acts = "[WsSent 1 (stamp low_stock ''u3'' ''t3'')]"] d w n
  show ?thesis by simp
qed

section \<open>No delivery across caregivers\<close>






























section \<open>The directory cache\<close>

text \<open>
  C4, as the code has it. A read at least the TTL after the last fetch whose refetch
  throws (the request fails, or the body does not decode) gets an empty list from
  \<open>fetchAllPatients\<close> and \<^verbatim>\<open>null\<close> from \<open>getAideForPatient\<close>. The cached
  value and its time stamp stay as they were, but they are not what the caller gets.
\<close>

theorem refetch_failure_returns_empty:
  assumes "PATIENTS_CACHE_TTL_MS \<le> now - patientsCacheTs c"
    and "res = FetchThrows \<or> res = Response ok JsonThrows"
  shows "fetchAllPatients cfg c now res now' = (JArr [], c) \<and>
         getAideForPatient cfg c now res now' patientId = (JNull, c)"
proof -
  from assms have "fetchAllPatients cfg c now res now' = (JArr [], c)"
    by (auto simp: fetchAllPatients_def refetch_def)
  then show ?thesis by (simp add: getAideForPatient_def)
qed

text \<open>
  The cache that holds patient P1 of caregiver A, fetched at time 0 and read at time
  30001, more than the TTL later, with a refetch that throws.
\<close>

theorem refetch_failure_returns_empty_witness:
  "PATIENTS_CACHE_TTL_MS < 30001 - patientsCacheTs stale_cache \<and>
   fetchAllPatients cfg0 stale_cache 30001 FetchThrows 30002 = (JArr [], stale_cache) \<and>
   getAideForPatient cfg0 stale_cache 30001 FetchThrows 30002 (JStr ''P1'') = (JNull, stale_cache)"
proof -
  have h: "PATIENTS_CACHE_TTL_MS \<le> 30001 - patientsCacheTs stale_cache"
    and h': "PATIENTS_CACHE_TTL_MS < 30001 - patientsCacheTs stale_cache"
    by (simp_all add: PATIENTS_CACHE_TTL_MS_def stale_cache_def)
  have k: "FetchThrows = FetchThrows \<or> FetchThrows = Response True JsonThrows" by simp
  from refetch_failure_returns_empty [OF h k, where cfg = cfg0 and now' = 30002
      and patientId = "JStr ''P1''"] h'
  show ?thesis by simp
qed

text \<open>
  The claim as the specification states it fails. The cache holds patient P1 of
  caregiver A, fetched at time 0. A read inside the TTL resolves P1 to A. A read at
  time 30001, more than the TTL after the fetch, whose refetch throws gets the empty
  list and \<^verbatim>\<open>null\<close>, not the cached mapping.
\<close>

theorem stale_cache_not_returned:
  "PATIENTS_CACHE_TTL_MS < 30001 - patientsCacheTs stale_cache \<and>
   fst (getAideForPatient cfg0 stale_cache 29999 FetchThrows 29999 (JStr ''P1'')) = JStr ''A'' \<and>
   fst (fetchAllPatients cfg0 stale_cache 30001 FetchThrows 30002) = JArr [] \<and>
   fst (fetchAllPatients cfg0 stale_cache 30001 FetchThrows 30002) \<noteq> patientsCache stale_cache \<and>
   fst (getAideForPatient cfg0 stale_cache 30001 FetchThrows 30002 (JStr ''P1'')) = JNull"
  by (simp add: getAideForPatient_def fetchAllPatients_def refetch_def stale_cache_def cfg0_def
      PATIENTS_CACHE_TTL_MS_def get_prop_def)

section \<open>The topic router\<close>

text \<open>
  On a \<^verbatim>\<open>delivery\<close> topic, an exception of \<^verbatim>\<open>JSON.parse\<close> leaves the handler,
  whatever the state and the other inputs are.
\<close>

lemma delivery_parse_failure_escapes:
  assumes "filter (\<lambda>p. p \<noteq> []) (split_topic topic) = [''alert'', ''box'', patientId, ''delivery'']"
    and "in_parsed inp = Inl err"
  shows "on_mqtt_message cfg socks inp c s topic message = Inl err"
  using assms
  by (simp add: on_mqtt_message_def Let_def split: prod.splits)

text \<open>
  No other exception leaves the handler: one that does comes from the \<^verbatim>\<open>delivery\<close>
  branch, from \<^verbatim>\<open>JSON.parse\<close> or from reading a property of \<^verbatim>\<open>null\<close>.
\<close>

lemma mqtt_escape_only_delivery:
  assumes "on_mqtt_message cfg socks inp c s topic message = Inl err"
  shows "join_with ''/'' (drop 3 (filter (\<lambda>p. p \<noteq> []) (split_topic topic))) = ''delivery'' \<and>
         (in_parsed inp = Inl err \<or> in_parsed inp = Inr JNull \<or> in_parsed inp = Inr JUndefined)"
  using assms
  by (auto simp: on_mqtt_message_def Let_def get_prop_def caught_def
      split: prod.splits if_splits sum.splits unit.splits)

text \<open>
  C5 does not hold of the code. The message \<^verbatim>\<open>not json\<close> on the topic
  \<^verbatim>\<open>alert/box/P1/delivery\<close>: \<^verbatim>\<open>JSON.parse\<close> throws a SyntaxError outside every
  \<^verbatim>\<open>try\<close>, and the handler ends with that exception, an unhandled rejection.
\<close>

theorem delivery_bad_json_rejects:
  "on_mqtt_message cfg0 open_sockets bad_delivery cache_init init
     ''alert/box/P1/delivery'' ''not json'' = Inl SyntaxError"
  by (simp add: on_mqtt_message_def Let_def bad_delivery_def split: prod.splits)

end
